theory Spec2Isabelle
  imports Complex_Main "HOL-Library.Word" "HOL-Library.Sublist"
begin

section \<open>Python values, exceptions and containers\<close>

type_synonym byte = "8 word"

text \<open>The exceptions that the statements of \<^verbatim>\<open>vimeo-download.py\<close> can raise.
  \<open>ValueError\<close> carries its message; \<open>KeyError\<close> the missing key; \<open>HTTPError\<close> the
  status code of the response that \<^verbatim>\<open>raise_for_status\<close> rejected.\<close>

datatype error =
    ValueError string
  | IndexError
  | KeyError string
  | OverflowError
  | HTTPError int
  | JSONDecodeError
  | Base64Error
  | FileNotFoundError string

text \<open>\<^verbatim>\<open>xs[i]\<close>: a negative index counts from the end, an index out of range raises.\<close>

definition py_index :: "'a list \<Rightarrow> int \<Rightarrow> error + 'a" where
  "py_index xs i =
     (let k = (if i < 0 then i + int (length xs) else i)
      in if k < 0 \<or> int (length xs) \<le> k then Inl IndexError else Inr (xs ! nat k))"

text \<open>\<^verbatim>\<open>str(n)\<close> for an integer, as an f-string prints it.\<close>

fun str_nat :: "nat \<Rightarrow> string" where
  "str_nat n =
     (if n < 10 then [''0123456789'' ! n] else str_nat (n div 10) @ [''0123456789'' ! (n mod 10)])"

definition str_int :: "int \<Rightarrow> string" where
  "str_int i = (if i < 0 then CHR ''-'' # str_nat (nat (- i)) else str_nat (nat i))"

text \<open>\<^verbatim>\<open>xs.index(x)\<close>: the first position of \<open>x\<close>, \<open>ValueError\<close> when it is absent.\<close>

fun list_index :: "int list \<Rightarrow> int \<Rightarrow> error + nat" where
  "list_index [] x = Inl (ValueError (str_int x @ '' is not in list''))"
| "list_index (y # ys) x =
     (if y = x then Inr 0
      else (case list_index ys x of Inl e \<Rightarrow> Inl e | Inr k \<Rightarrow> Inr (Suc k)))"

text \<open>\<^verbatim>\<open>max(xs)\<close> raises on an empty list.\<close>

definition py_max :: "int list \<Rightarrow> error + int" where
  "py_max xs =
     (case xs of
        [] \<Rightarrow> Inl (ValueError ''max() iterable argument is empty'')
      | y # ys \<Rightarrow> Inr (fold max ys y))"

text \<open>\<^verbatim>\<open>s.rfind(c)\<close>: the highest position of \<open>c\<close>, or \<open>-1\<close>.\<close>

definition rfind :: "string \<Rightarrow> char \<Rightarrow> int" where
  "rfind s c =
     (if c \<in> set s then int (length s) - 1 - int (length (takeWhile (\<lambda>x. x \<noteq> c) (rev s)))
      else - 1)"

section \<open>Python floats: IEEE 754 binary64\<close>

text \<open>The fuzzy search multiplies an integer height by the literals \<^verbatim>\<open>0.95\<close> and
  \<^verbatim>\<open>1.05\<close>. A finite double is its rational value; the operations round to nearest,
  ties to even, with 53 significant bits, gradual underflow below \<open>2^-1022\<close> and
  overflow to infinity from \<open>2^1024\<close>.\<close>

datatype pyfloat = Finite rat | PosInf | NegInf

fun bitlen :: "nat \<Rightarrow> nat" where
  "bitlen n = (if n = 0 then 0 else Suc (bitlen (n div 2)))"

definition pow2 :: "int \<Rightarrow> rat" where
  "pow2 e = (if 0 \<le> e then 2 ^ nat e else 1 / 2 ^ nat (- e))"

text \<open>For \<open>0 < x\<close>, the exponent \<open>e\<close> with \<open>2^e \<le> x < 2^(e+1)\<close>.\<close>

definition ilog2 :: "rat \<Rightarrow> int" where
  "ilog2 x =
     (if 1 \<le> x then int (bitlen (nat \<lfloor>x\<rfloor>)) - 1
      else - int (bitlen (nat (\<lceil>1 / x\<rceil> - 1))))"

definition round_half_even :: "rat \<Rightarrow> int" where
  "round_half_even x =
     (let f = \<lfloor>x\<rfloor>; d = x - of_int f
      in if d < 1 / 2 then f else if 1 / 2 < d then f + 1 else if even f then f else f + 1)"

definition fl :: "rat \<Rightarrow> pyfloat" where
  "fl x =
     (if x = 0 then Finite 0
      else
        let q = pow2 (max (ilog2 \<bar>x\<bar>) (- 1022) - 52);
            r = of_int (round_half_even (\<bar>x\<bar> / q)) * q
        in if pow2 1024 \<le> r then (if 0 < x then PosInf else NegInf)
           else Finite (if 0 < x then r else - r))"

text \<open>A decimal literal of the source text is the nearest double.\<close>

definition float_literal :: "rat \<Rightarrow> rat" where
  "float_literal x = (case fl x of Finite r \<Rightarrow> r | PosInf \<Rightarrow> 0 | NegInf \<Rightarrow> 0)"

text \<open>\<^verbatim>\<open>int * float\<close> converts the integer first; an integer beyond the range of a
  double raises \<open>OverflowError\<close>. The product of two finite doubles is rounded and may
  overflow to infinity without raising.\<close>

definition float_of_int :: "int \<Rightarrow> error + rat" where
  "float_of_int i =
     (case fl (of_int i) of Finite r \<Rightarrow> Inr r | PosInf \<Rightarrow> Inl OverflowError
      | NegInf \<Rightarrow> Inl OverflowError)"

definition float_mul :: "rat \<Rightarrow> rat \<Rightarrow> pyfloat" where
  "float_mul a b = fl (a * b)"

text \<open>Python compares a float with an integer exactly.\<close>

fun float_le_int :: "pyfloat \<Rightarrow> int \<Rightarrow> bool" where
  "float_le_int (Finite r) i = (r \<le> of_int i)"
| "float_le_int PosInf i = False"
| "float_le_int NegInf i = True"

fun int_le_float :: "int \<Rightarrow> pyfloat \<Rightarrow> bool" where
  "int_le_float i (Finite r) = (of_int i \<le> r)"
| "int_le_float i PosInf = True"
| "int_le_float i NegInf = False"

section \<open>The data model\<close>

datatype AudioQuality = LOW | MED | HI

fun AudioQuality_value :: "AudioQuality \<Rightarrow> int" where
  "AudioQuality_value LOW = 0"
| "AudioQuality_value MED = 1"
| "AudioQuality_value HI = 2"

datatype VideoQuality = V240 | V360 | V540 | V720 | V1080 | V1440 | V2160 | VMAX

fun VideoQuality_value :: "VideoQuality \<Rightarrow> int" where
  "VideoQuality_value V240 = 240"
| "VideoQuality_value V360 = 360"
| "VideoQuality_value V540 = 540"
| "VideoQuality_value V720 = 720"
| "VideoQuality_value V1080 = 1080"
| "VideoQuality_value V1440 = 1440"
| "VideoQuality_value V2160 = 2160"
| "VideoQuality_value VMAX = 0"

text \<open>The entries of \<^verbatim>\<open>master.json\<close> that the program reads. The top-level
  \<^verbatim>\<open>base_url\<close> key may be missing from the document.\<close>

record segment =
  url :: string

record video_rendition =
  video_id :: string
  width :: int
  height :: int
  video_base_url :: string
  video_init_segment :: string
  video_segments :: "segment list"

record audio_rendition =
  audio_id :: string
  sample_rate :: int
  bitrate :: int
  audio_base_url :: string
  audio_init_segment :: string
  audio_segments :: "segment list"

record manifest =
  shared_base_url :: "string option"
  video :: "video_rendition list"
  audio :: "audio_rendition list"

record response =
  status_code :: int
  chunks :: "byte list list"

text \<open>What the program can observe and change outside itself: the HTTP requests issued so
  far, the lines printed, and the files on disk.\<close>

record world =
  requests :: "string list"
  stdout :: "string list"
  files :: "string \<rightharpoonup> byte list"

text \<open>The collaborators the program calls and does not define: the HTTP client (its answer
  may depend on the requests made before), the JSON and base64 decoders, the terminal menu,
  the path functions of \<^verbatim>\<open>os.path\<close> and the shell command run by
  \<^verbatim>\<open>subprocess.call\<close>, which returns an exit status and may change files.\<close>

record env =
  requests_get :: "string list \<Rightarrow> string \<Rightarrow> error + response"
  response_json :: "byte list \<Rightarrow> error + manifest"
  b64decode :: "string \<Rightarrow> error + byte list"
  tty_menu :: "string list \<Rightarrow> string \<Rightarrow> int"
  os_path_basename :: "string \<Rightarrow> string"
  os_path_dirname :: "string \<Rightarrow> string"
  os_path_abspath :: "string \<Rightarrow> string"
  os_path_splitext :: "string \<Rightarrow> string \<times> string"
  subprocess_call :: "string \<Rightarrow> (string \<rightharpoonup> byte list) \<Rightarrow> int \<times> (string \<rightharpoonup> byte list)"

record VimeoDownload =
  output_file :: string
  master_json_url :: string
  master_json :: manifest
  base_url :: string
  audio_json :: "audio_rendition option"
  video_json :: "video_rendition option"
  audio_file :: "string option"
  video_file :: "string option"

definition print :: "world \<Rightarrow> string \<Rightarrow> world" where
  "print w line = w\<lparr>stdout := stdout w @ [line]\<rparr>"

definition http_get :: "env \<Rightarrow> string \<Rightarrow> world \<Rightarrow> (error + response) \<times> world" where
  "http_get env u w = (requests_get env (requests w) u, w\<lparr>requests := requests w @ [u]\<rparr>)"

text \<open>\<^verbatim>\<open>Response.raise_for_status\<close> of the requests library raises for the client and
  server error classes only.\<close>

definition raise_for_status :: "response \<Rightarrow> error option" where
  "raise_for_status r =
     (if 400 \<le> status_code r \<and> status_code r < 600 then Some (HTTPError (status_code r))
      else None)"

section \<open>The class \<^verbatim>\<open>VimeoDownload\<close>\<close>

definition output_filename :: "env \<Rightarrow> VimeoDownload \<Rightarrow> string" where
  "output_filename env self = os_path_basename env (output_file self)"

definition output_directory :: "env \<Rightarrow> VimeoDownload \<Rightarrow> string" where
  "output_directory env self = os_path_dirname env (os_path_abspath env (output_file self))"

definition list_widths :: "VimeoDownload \<Rightarrow> int list" where
  "list_widths self = map width (video (master_json self))"

definition list_heights :: "VimeoDownload \<Rightarrow> int list" where
  "list_heights self = map height (video (master_json self))"

definition list_sample_rates :: "VimeoDownload \<Rightarrow> int list" where
  "list_sample_rates self = map sample_rate (audio (master_json self))"

definition list_bitrates :: "VimeoDownload \<Rightarrow> int list" where
  "list_bitrates self = map bitrate (audio (master_json self))"

text \<open>The two menus. Each sorts its two columns on their own, high to low, and pairs
  them by position.\<close>

definition audio_menu :: "VimeoDownload \<Rightarrow> string list" where
  "audio_menu self =
     (let samples = rev (sort (list_sample_rates self));
          bitrates = rev (sort (list_bitrates self))
      in map (\<lambda>index. str_int (samples ! index) @ ''/'' @ str_int (bitrates ! index))
           [0..<length samples])"

definition ask_audio_quality :: "env \<Rightarrow> VimeoDownload \<Rightarrow> error + int" where
  "ask_audio_quality env self =
     (let bitrates = rev (sort (list_bitrates self));
          index = tty_menu env (audio_menu self) ''Audio Quality? (sample_rate/bitrate)''
      in py_index bitrates index)"

definition video_menu :: "VimeoDownload \<Rightarrow> string list" where
  "video_menu self =
     (let heights = rev (sort (list_heights self));
          widths = rev (sort (list_widths self))
      in map (\<lambda>index. str_int (widths ! index) @ ''x'' @ str_int (heights ! index))
           [0..<length heights])"

definition ask_video_quality :: "env \<Rightarrow> VimeoDownload \<Rightarrow> error + int" where
  "ask_video_quality env self =
     (let heights = rev (sort (list_heights self));
          index = tty_menu env (video_menu self) ''Video Quality? (width x height)''
      in py_index heights index)"

text \<open>Lines 175 to 188 of \<^verbatim>\<open>configure_quality\<close>: the bitrate, then the first
  rendition that carries it.\<close>

definition audio_bitrate :: "env \<Rightarrow> AudioQuality option \<Rightarrow> VimeoDownload \<Rightarrow> error + int" where
  "audio_bitrate env audio_quality self =
     (case audio_quality of
        None \<Rightarrow> ask_audio_quality env self
      | Some q \<Rightarrow>
          (let bitrates = sort (list_bitrates self)
           in if q = HI then py_index bitrates (- 1)
              else py_index bitrates (AudioQuality_value q)))"

definition select_audio ::
  "env \<Rightarrow> AudioQuality option \<Rightarrow> VimeoDownload \<Rightarrow> error + audio_rendition" where
  "select_audio env audio_quality self =
     (case audio_bitrate env audio_quality self of
        Inl e \<Rightarrow> Inl e
      | Inr b \<Rightarrow>
          (case list_index (list_bitrates self) b of
             Inl e \<Rightarrow> Inl e
           | Inr index \<Rightarrow> py_index (audio (master_json self)) (int index)))"

text \<open>The test of the fuzzy search,
  \<^verbatim>\<open>(height * 0.95) <= video_quality.value <= (height * 1.05)\<close>, in floats.\<close>

definition fuzzy_in_range :: "int \<Rightarrow> int \<Rightarrow> error + bool" where
  "fuzzy_in_range h v =
     (case float_of_int h of
        Inl e \<Rightarrow> Inl e
      | Inr hf \<Rightarrow>
          Inr (float_le_int (float_mul hf (float_literal (95 / 100))) v
               \<and> int_le_float v (float_mul hf (float_literal (105 / 100)))))"

fun fuzzy_search :: "int list \<Rightarrow> int \<Rightarrow> nat \<Rightarrow> error + nat option" where
  "fuzzy_search [] v index = Inr None"
| "fuzzy_search (h # heights) v index =
     (case fuzzy_in_range h v of
        Inl e \<Rightarrow> Inl e
      | Inr True \<Rightarrow> Inr (Some index)
      | Inr False \<Rightarrow> fuzzy_search heights v (Suc index))"

text \<open>Lines 190 to 218: the height, then the first rendition of that height.\<close>

definition video_height ::
  "env \<Rightarrow> bool \<Rightarrow> VideoQuality option \<Rightarrow> VimeoDownload \<Rightarrow> world \<Rightarrow> (error + int) \<times> world" where
  "video_height env interactive_fallback video_quality self w =
     (case video_quality of
        None \<Rightarrow> (ask_video_quality env self, w)
      | Some q \<Rightarrow>
          if q = VMAX then (py_max (list_heights self), w)
          else if VideoQuality_value q \<in> set (list_heights self)
          then (Inr (VideoQuality_value q), w)
          else
            (case fuzzy_search (list_heights self) (VideoQuality_value q) 0 of
               Inl e \<Rightarrow> (Inl e, w)
             | Inr (Some position) \<Rightarrow> (py_index (list_heights self) (int position), w)
             | Inr None \<Rightarrow>
                 if interactive_fallback
                 then (ask_video_quality env self,
                       print w (str_int (VideoQuality_value q)
                         @ ''p is not available. See options below''))
                 else (Inl (ValueError (''Unable to find video quality matching ''
                         @ str_int (VideoQuality_value q) @ ''p'')), w)))"

definition select_video ::
  "env \<Rightarrow> bool \<Rightarrow> VideoQuality option \<Rightarrow> VimeoDownload \<Rightarrow> world
     \<Rightarrow> (error + video_rendition) \<times> world" where
  "select_video env interactive_fallback video_quality self w =
     (case video_height env interactive_fallback video_quality self w of
        (Inl e, w') \<Rightarrow> (Inl e, w')
      | (Inr h, w') \<Rightarrow>
          (case list_index (list_heights self) h of
             Inl e \<Rightarrow> (Inl e, w')
           | Inr index \<Rightarrow> (py_index (video (master_json self)) (int index), w')))"

definition header :: "env \<Rightarrow> VimeoDownload \<Rightarrow> string" where
  "header env self = CHR 0x0A # ''======== '' @ output_filename env self @ '' ========''"

definition configure_quality ::
  "env \<Rightarrow> bool \<Rightarrow> AudioQuality option \<Rightarrow> VideoQuality option \<Rightarrow> VimeoDownload \<Rightarrow> world
     \<Rightarrow> error option \<times> VimeoDownload \<times> world" where
  "configure_quality env interactive_fallback audio_quality video_quality self w =
     (if \<not> interactive_fallback \<and> (audio_quality = None \<or> video_quality = None)
      then (Some (ValueError ''Must provide audio and video quality when interactive == False''),
            self, w)
      else
        let w1 = print w (header env self)
        in case select_audio env audio_quality self of
             Inl e \<Rightarrow> (Some e, self, w1)
           | Inr a \<Rightarrow>
               let self1 = self\<lparr>audio_json := Some a\<rparr>
               in (case select_video env interactive_fallback video_quality self1 w1 of
                     (Inl e, w2) \<Rightarrow> (Some e, self1, w2)
                   | (Inr v, w2) \<Rightarrow>
                       (None, self1\<lparr>video_json := Some v\<rparr>,
                        print (print (print w2 ''---- quality configuration ----'')
                          (''video'' @ [CHR 0x09] @ str_int (width v) @ ''x''
                             @ str_int (height v)))
                          (''audio'' @ [CHR 0x09] @ str_int (sample_rate a) @ ''/''
                             @ str_int (bitrate a)))))"

text \<open>The constructor, lines 55 to 63: the two status checks on the response for
  \<^verbatim>\<open>master.json\<close>. Each prints its line and then calls \<^verbatim>\<open>raise_for_status\<close>.\<close>

definition check_expired :: "response \<Rightarrow> world \<Rightarrow> error option \<times> world" where
  "check_expired r w =
     (if status_code r = 410
      then (raise_for_status r,
            print w (''ERROR: http code ['' @ str_int (status_code r)
              @ '']. master.json expired, please update url and rerun.''))
      else (None, w))"

definition check_status :: "response \<Rightarrow> world \<Rightarrow> error option \<times> world" where
  "check_status r w =
     (if status_code r \<noteq> 200
      then (raise_for_status r,
            print w (''ERROR: received http code ['' @ str_int (status_code r)
              @ ''] when downloading master.json''))
      else (None, w))"

text \<open>Lines 65 to 81: the directory of the manifest URL, and the probe that decides whether
  the shared \<^verbatim>\<open>base_url\<close> of the manifest is part of the segment URLs.\<close>

definition trimmed_url :: "string \<Rightarrow> string" where
  "trimmed_url master_url = take (nat (rfind master_url CHR ''/'' + 1)) master_url"

definition resolve_base_url ::
  "env \<Rightarrow> string \<Rightarrow> string \<Rightarrow> manifest \<Rightarrow> world \<Rightarrow> (error + VimeoDownload) \<times> world" where
  "resolve_base_url env output master_url mj w =
     (case py_index (video mj) 0 of
        Inl e \<Rightarrow> (Inl e, w)
      | Inr test_video \<Rightarrow>
          (case shared_base_url mj of
             None \<Rightarrow> (Inl (KeyError ''base_url''), w)
           | Some shared \<Rightarrow>
               (case py_index (video_segments test_video) 0 of
                  Inl e \<Rightarrow> (Inl e, w)
                | Inr first_segment \<Rightarrow>
                    (case http_get env
                            (trimmed_url master_url @ shared @ video_base_url test_video
                               @ url first_segment) w of
                       (Inl e, w1) \<Rightarrow> (Inl e, w1)
                     | (Inr probe, w1) \<Rightarrow>
                         (Inr \<lparr>output_file = output, master_json_url = master_url,
                               master_json = mj,
                               base_url = (if status_code probe = 200
                                           then trimmed_url master_url @ shared
                                           else trimmed_url master_url),
                               audio_json = None, video_json = None,
                               audio_file = None, video_file = None\<rparr>, w1)))))"

definition VimeoDownload_init ::
  "env \<Rightarrow> string \<Rightarrow> string \<Rightarrow> world \<Rightarrow> (error + VimeoDownload) \<times> world" where
  "VimeoDownload_init env output master_url w =
     (case http_get env master_url w of
        (Inl e, w1) \<Rightarrow> (Inl e, w1)
      | (Inr r, w1) \<Rightarrow>
          (case check_expired r w1 of
             (Some e, w2) \<Rightarrow> (Inl e, w2)
           | (None, w2) \<Rightarrow>
               (case check_status r w2 of
                  (Some e, w3) \<Rightarrow> (Inl e, w3)
                | (None, w3) \<Rightarrow>
                    (case response_json env (concat (chunks r)) of
                       Inl e \<Rightarrow> (Inl e, w3)
                     | Inr mj \<Rightarrow> resolve_base_url env output master_url mj w3))))"

text \<open>Files: \<^verbatim>\<open>open(path, 'wb')\<close> creates or empties the file, a write appends,
  \<^verbatim>\<open>os.remove\<close> raises when the file is missing.\<close>

definition file_open_wb :: "string \<Rightarrow> world \<Rightarrow> world" where
  "file_open_wb path w = w\<lparr>files := (files w)(path \<mapsto> [])\<rparr>"

definition file_write :: "string \<Rightarrow> byte list \<Rightarrow> world \<Rightarrow> world" where
  "file_write path bytes w =
     w\<lparr>files := (files w)(path \<mapsto> (case files w path of None \<Rightarrow> bytes | Some old \<Rightarrow> old @ bytes))\<rparr>"

definition os_remove :: "string \<Rightarrow> world \<Rightarrow> error option \<times> world" where
  "os_remove path w =
     (if files w path = None then (Some (FileNotFoundError path), w)
      else (None, w\<lparr>files := (files w)(path := None)\<rparr>))"

text \<open>The segment loop of \<^verbatim>\<open>download_audio_video\<close>, the same for both tracks but for
  the word in its error line: each response is written chunk by chunk.\<close>

fun download_segments ::
  "env \<Rightarrow> string \<Rightarrow> string \<Rightarrow> string \<Rightarrow> segment list \<Rightarrow> world \<Rightarrow> error option \<times> world" where
  "download_segments env track_base_url kind path [] w = (None, w)"
| "download_segments env track_base_url kind path (s # segments) w =
     (case http_get env (track_base_url @ url s) w of
        (Inl e, w1) \<Rightarrow> (Some e, w1)
      | (Inr r, w1) \<Rightarrow>
          (let w2 = (if status_code r \<noteq> 200
                     then print w1 (''ERROR: received http code ['' @ str_int (status_code r)
                            @ ''] when downloading '' @ kind)
                     else w1)
           in case (if status_code r \<noteq> 200 then raise_for_status r else None) of
                Some e \<Rightarrow> (Some e, w2)
              | None \<Rightarrow>
                  download_segments env track_base_url kind path segments
                    (fold (file_write path) (chunks r) w2)))"

definition download_track ::
  "env \<Rightarrow> string \<Rightarrow> string \<Rightarrow> string \<Rightarrow> string \<Rightarrow> segment list \<Rightarrow> world
     \<Rightarrow> error option \<times> world" where
  "download_track env track_base_url kind path init segments w =
     (let w1 = file_open_wb path w
      in case b64decode env init of
           Inl e \<Rightarrow> (Some e, w1)
         | Inr init_segment \<Rightarrow>
             download_segments env track_base_url kind path segments
               (file_write path init_segment w1))"

definition track_file :: "env \<Rightarrow> VimeoDownload \<Rightarrow> string \<Rightarrow> string \<Rightarrow> string \<Rightarrow> string" where
  "track_file env self kind ident ext =
     output_directory env self @ ''/''
       @ fst (os_path_splitext env (output_filename env self)) @ ''_'' @ kind @ ''_'' @ ident @ ext"

definition download_audio_video ::
  "env \<Rightarrow> VimeoDownload \<Rightarrow> world \<Rightarrow> error option \<times> VimeoDownload \<times> world" where
  "download_audio_video env self w =
     (case (audio_json self, video_json self) of
        (Some a, Some v) \<Rightarrow>
          (let w1 = print (print w (header env self)) ''---- downloading audio and video ----'';
               self1 = self\<lparr>audio_file := Some (track_file env self ''audio'' (audio_id a) ''.m4a'')\<rparr>
           in case download_track env (base_url self @ audio_base_url a) ''audio''
                     (track_file env self ''audio'' (audio_id a) ''.m4a'')
                     (audio_init_segment a) (audio_segments a) w1 of
                (Some e, w2) \<Rightarrow> (Some e, self1, w2)
              | (None, w2) \<Rightarrow>
                  (case download_track env (base_url self @ video_base_url v) ''video''
                          (track_file env self ''video'' (video_id v) ''.mp4'')
                          (video_init_segment v) (video_segments v) w2 of
                     (e, w3) \<Rightarrow>
                       (e, self1\<lparr>video_file :=
                                   Some (track_file env self ''video'' (video_id v) ''.mp4'')\<rparr>, w3)))
      | _ \<Rightarrow>
          (Some (ValueError
             ''Error: must configure_quality() before calling download_audio_video()''),
           self, w))"

definition ffmpeg_command :: "string \<Rightarrow> string \<Rightarrow> string \<Rightarrow> string" where
  "ffmpeg_command audio_path video_path output =
     ''ffmpeg -v quiet -stats -y -i '' @ [CHR 0x22] @ audio_path @ [CHR 0x22] @ '' -i ''
       @ [CHR 0x22] @ video_path @ [CHR 0x22] @ '' '' @ [CHR 0x22] @ output @ [CHR 0x22]"

definition combine_audio_video ::
  "env \<Rightarrow> VimeoDownload \<Rightarrow> world \<Rightarrow> error option \<times> VimeoDownload \<times> world" where
  "combine_audio_video env self w =
     (case (audio_file self, video_file self) of
        (Some af, Some vf) \<Rightarrow>
          if files w af = None \<or> files w vf = None
          then (Some (ValueError
                  ''Error: unable to find specified audio and video files to be combined.''),
                self, w)
          else
            (let w1 = print (print w (header env self)) ''---- combining audio and video ----'';
                 w2 = w1\<lparr>files := snd (subprocess_call env
                                          (ffmpeg_command af vf (output_file self)) (files w1))\<rparr>
             in case os_remove af w2 of
                  (Some e, w3) \<Rightarrow> (Some e, self, w3)
                | (None, w3) \<Rightarrow> (case os_remove vf w3 of (e, w4) \<Rightarrow> (e, self, w4)))
      | _ \<Rightarrow>
          (Some (ValueError
             ''Error: must download_audio_video() before calling combine_audio_video()''),
           self, w))"

section \<open>Concrete inputs\<close>

text \<open>A small environment, renditions and a job, used to run the definitions.\<close>

definition example_env :: env where
  "example_env =
     \<lparr>requests_get = (\<lambda>history u. Inr \<lparr>status_code = 200, chunks = []\<rparr>),
      response_json = (\<lambda>body. Inl JSONDecodeError),
      b64decode = (\<lambda>text. Inr []),
      tty_menu = (\<lambda>options title. 0),
      os_path_basename = (\<lambda>p. p),
      os_path_dirname = (\<lambda>p. ''/tmp''),
      os_path_abspath = (\<lambda>p. ''/tmp/'' @ p),
      os_path_splitext = (\<lambda>p. (takeWhile (\<lambda>c. c \<noteq> CHR ''.'') p, dropWhile (\<lambda>c. c \<noteq> CHR ''.'') p)),
      subprocess_call = (\<lambda>command fs. (0, fs))\<rparr>"

definition example_audio :: "string \<Rightarrow> int \<Rightarrow> int \<Rightarrow> audio_rendition" where
  "example_audio i s b =
     \<lparr>audio_id = i, sample_rate = s, bitrate = b, audio_base_url = ''audio/'' @ i @ ''/'',
      audio_init_segment = ''AAAA'', audio_segments = [\<lparr>url = ''a0.m4s''\<rparr>, \<lparr>url = ''a1.m4s''\<rparr>]\<rparr>"

definition example_video :: "string \<Rightarrow> int \<Rightarrow> int \<Rightarrow> video_rendition" where
  "example_video i x y =
     \<lparr>video_id = i, width = x, height = y, video_base_url = ''video/'' @ i @ ''/'',
      video_init_segment = ''BBBB'', video_segments = [\<lparr>url = ''v0.m4s''\<rparr>, \<lparr>url = ''v1.m4s''\<rparr>]\<rparr>"

definition example_job :: "video_rendition list \<Rightarrow> audio_rendition list \<Rightarrow> VimeoDownload" where
  "example_job vs as =
     \<lparr>output_file = ''out.mp4'', master_json_url = ''http://host/m/master.json'',
      master_json = \<lparr>shared_base_url = Some ''../'', video = vs, audio = as\<rparr>,
      base_url = ''http://host/m/'', audio_json = None, video_json = None,
      audio_file = None, video_file = None\<rparr>"

definition empty_world :: world where
  "empty_world = \<lparr>requests = [], stdout = [], files = Map.empty\<rparr>"

definition crossed_job :: VimeoDownload where
  "crossed_job =
     example_job [example_video ''v1'' 1920 800, example_video ''v2'' 1280 960]
       [example_audio ''a1'' 48000 64000, example_audio ''a2'' 44100 128000]"

section \<open>Indexing, searching and sorting\<close>



lemma py_index_out: "int (length xs) \<le> i \<Longrightarrow> py_index xs i = Inl IndexError"
  by (simp add: py_index_def)






section \<open>Audio tiers\<close>

lemma select_audio_med_single:
  assumes "length (audio (master_json self)) = 1"
  shows "select_audio env (Some MED) self = Inl IndexError"
  using assms by (simp add: select_audio_def audio_bitrate_def list_bitrates_def py_index_def)

text \<open>Claim C10. With exactly one audio rendition, a request for the tier \<open>MED\<close> binds
  nothing: \<^verbatim>\<open>bitrates[1]\<close> is out of range, so \<open>configure_quality\<close> raises
  \<open>IndexError\<close> right after printing its header, and the job is left as it was. (The
  second premise only says that the call passes the argument check of its first line.)\<close>

theorem med_needs_two_renditions:
  assumes "length (audio (master_json self)) = 1"
    and "interactive_fallback \<or> video_quality \<noteq> None"
  shows "configure_quality env interactive_fallback (Some MED) video_quality self w
           = (Some IndexError, self, print w (header env self))"
  using assms(2) select_audio_med_single [OF assms(1)]
  by (auto simp: configure_quality_def)

theorem med_needs_two_renditions_witness:
  "length (audio (master_json (example_job [example_video ''v'' 1280 720] [example_audio ''a'' 48000 128000]))) = 1
   \<and> configure_quality example_env True (Some MED) (Some V720)
        (example_job [example_video ''v'' 1280 720] [example_audio ''a'' 48000 128000]) empty_world
      = (Some IndexError, example_job [example_video ''v'' 1280 720] [example_audio ''a'' 48000 128000],
         print empty_world (header example_env (example_job [example_video ''v'' 1280 720] [example_audio ''a'' 48000 128000])))"
proof -
  have len: "length (audio (master_json (example_job [example_video ''v'' 1280 720] [example_audio ''a'' 48000 128000]))) = 1"
    by (simp add: example_job_def)
  have pre: "True \<or> Some V720 \<noteq> None" by simp
  show ?thesis
    using len med_needs_two_renditions [OF len pre, of example_env empty_world] by simp
qed







section \<open>The interactive menus\<close>

lemma str_int_examples:
  "str_int 48000 = ''48000''" "str_int 44100 = ''44100''" "str_int 64000 = ''64000''"
  "str_int 128000 = ''128000''" "str_int 1920 = ''1920''" "str_int 1280 = ''1280''"
  "str_int 960 = ''960''" "str_int 800 = ''800''"
  by (simp_all add: str_int_def)

lemma crossed_audio_menu: "audio_menu crossed_job = [''48000/128000'', ''44100/64000'']"
  by (simp add: audio_menu_def crossed_job_def example_job_def example_audio_def
      list_sample_rates_def list_bitrates_def str_int_examples upt_rec)

lemma crossed_video_menu: "video_menu crossed_job = [''1920x960'', ''1280x800'']"
  by (simp add: video_menu_def crossed_job_def example_job_def example_video_def
      list_heights_def list_widths_def str_int_examples upt_rec)

lemma crossed_select_audio:
  "select_audio example_env None crossed_job = Inr (example_audio ''a2'' 44100 128000)"
  by (simp add: select_audio_def audio_bitrate_def ask_audio_quality_def example_env_def
      py_index_def crossed_job_def example_job_def list_bitrates_def example_audio_def)

lemma crossed_select_video:
  "select_video example_env True None (crossed_job\<lparr>audio_json := Some a\<rparr>) w
     = (Inr (example_video ''v2'' 1280 960), w)"
  by (simp add: select_video_def video_height_def ask_video_quality_def example_env_def
      py_index_def crossed_job_def example_job_def list_heights_def example_video_def)

text \<open>Claim C7 fails on the code. The two menus sort their two columns separately, so on
  the audio renditions 48000/64000 and 44100/128000 the audio menu shows 48000/128000 and
  44100/64000, neither of which is a rendition, and on the video renditions 1920x800 and
  1280x960 the video menu shows 1920x960 and 1280x800. Picking the first option of each menu
  binds the renditions 44100/128000 and 1280x960.\<close>

theorem menu_options_not_renditions:
  "audio_menu crossed_job = [''48000/128000'', ''44100/64000'']
   \<and> map (\<lambda>a. (sample_rate a, bitrate a)) (audio (master_json crossed_job))
       = [(48000, 64000), (44100, 128000)]
   \<and> video_menu crossed_job = [''1920x960'', ''1280x800'']
   \<and> map (\<lambda>v. (width v, height v)) (video (master_json crossed_job))
       = [(1920, 800), (1280, 960)]
   \<and> tty_menu example_env (audio_menu crossed_job) ''Audio Quality? (sample_rate/bitrate)'' = 0
   \<and> tty_menu example_env (video_menu crossed_job) ''Video Quality? (width x height)'' = 0
   \<and> fst (configure_quality example_env True None None crossed_job empty_world) = None
   \<and> audio_json (fst (snd (configure_quality example_env True None None crossed_job empty_world)))
       = Some (example_audio ''a2'' 44100 128000)
   \<and> video_json (fst (snd (configure_quality example_env True None None crossed_job empty_world)))
       = Some (example_video ''v2'' 1280 960)"
proof -
  have menus: "audio_menu crossed_job = [''48000/128000'', ''44100/64000'']"
    "video_menu crossed_job = [''1920x960'', ''1280x800'']"
    by (rule crossed_audio_menu, rule crossed_video_menu)
  have pairs: "map (\<lambda>a. (sample_rate a, bitrate a)) (audio (master_json crossed_job))
       = [(48000, 64000), (44100, 128000)]"
    "map (\<lambda>v. (width v, height v)) (video (master_json crossed_job))
       = [(1920, 800), (1280, 960)]"
    by (simp_all add: crossed_job_def example_job_def example_audio_def example_video_def)
  have picks: "tty_menu example_env options title = 0" for options title
    by (simp add: example_env_def)
  have run: "configure_quality example_env True None None crossed_job empty_world
      = (None, crossed_job\<lparr>audio_json := Some (example_audio ''a2'' 44100 128000),
                           video_json := Some (example_video ''v2'' 1280 960)\<rparr>,
         snd (snd (configure_quality example_env True None None crossed_job empty_world)))"
    by (simp add: configure_quality_def crossed_select_audio crossed_select_video)
  have bound: "fst (configure_quality example_env True None None crossed_job empty_world) = None"
    "audio_json (fst (snd (configure_quality example_env True None None crossed_job empty_world)))
       = Some (example_audio ''a2'' 44100 128000)"
    "video_json (fst (snd (configure_quality example_env True None None crossed_job empty_world)))
       = Some (example_video ''v2'' 1280 960)"
    by (subst run, simp)+
  show ?thesis using menus pairs picks bound by simp
qed

end
